theory Spec2Isabelle
  imports Complex_Main "HOL-Library.Log_Nat"
begin

section \<open>Roofing cost calculator: data model\<close>

text \<open>
  The embedding follows \<open>src/client/src/lib/roofing-calculations.ts\<close> and the type
  declarations that accompany it. String unions are datatypes, interfaces are records, and
  the material code stays a string, as the catalog is indexed by string keys.

  A TypeScript \<open>number\<close> is an IEEE 754 binary64 value. It is carried by a \<open>real\<close>, and the
  cost estimator is embedded twice. In \<open>calculateRoofingCost\<close> the arithmetic is exact; it
  serves the properties that rounding cannot affect (which branch is taken, which
  expression a field is, the order of the totals). In \<open>calculateRoofingCost64\<close> every
  decimal literal and every operation is rounded to binary64 (to nearest, ties to even);
  it serves the properties whose truth depends on the rounding. \<open>NaN\<close>, the infinities,
  overflow and underflow are outside both.
\<close>

datatype RoofingType = Residential | Commercial

datatype JobType = New | Replacement | Repair

datatype ComplexityType = Simple | Medium | Complex

datatype PitchType = Flat | Low | MediumPitch | Steep

record CostBreakdown =
  materials :: real
  labor :: real
  addons :: real
  totalLow :: real
  totalHigh :: real
  totalMid :: real

record CalculatorFormData =
  roofingType :: RoofingType
  roofSize :: real
  material :: string
  jobType :: JobType
  complexity :: ComplexityType
  tearoff :: bool
  permits :: bool

record RoofSizeHelperData =
  footprint :: real
  overhang :: real
  pitch :: PitchType

text \<open>
  Destructuring \<open>undefined\<close> (the value of a lookup with a key the object does not
  have) throws a \<open>TypeError\<close>; this is the only exception the two functions can raise.
\<close>

datatype error = TypeError

section \<open>Pricing catalog\<close>

text \<open>\<open>materialPricing\<close>: category, then material code, to the pair [low, high].\<close>

definition materialPricing :: "RoofingType \<Rightarrow> string \<rightharpoonup> real \<times> real" where
  "materialPricing rt =
     (case rt of
        Residential \<Rightarrow>
          [''asphalt'' \<mapsto> (5, 10),
           ''clay'' \<mapsto> (11, 25),
           ''metal'' \<mapsto> (7, 20),
           ''wood'' \<mapsto> (8, 15),
           ''slate'' \<mapsto> (15, 40),
           ''membrane'' \<mapsto> (7, 12)]
      | Commercial \<Rightarrow>
          [''tpo'' \<mapsto> (4, 8),
           ''pvc'' \<mapsto> (5, 9),
           ''epdm'' \<mapsto> (4, 9),
           ''modified'' \<mapsto> (9 / 2, 9),
           ''bur'' \<mapsto> (11 / 2, 10),
           ''metal'' \<mapsto> (8, 15),
           ''asphalt'' \<mapsto> (7, 10)])"

section \<open>Cost estimator\<close>

text \<open>The local table \<open>complexityMultipliers\<close> of \<open>calculateRoofingCost\<close>.\<close>

fun complexityMultipliers :: "ComplexityType \<Rightarrow> real" where
  "complexityMultipliers Simple = 0"
| "complexityMultipliers Medium = 2 / 10"
| "complexityMultipliers Complex = 4 / 10"

text \<open>
  \<open>calculateRoofingCost\<close>. The guard \<open>!roofSize || !material || roofSize <= 0\<close> returns
  \<open>null\<close> (\<open>Inr None\<close>); \<open>!roofSize\<close> is true of the number 0 and \<open>!material\<close> of the
  empty string. The catalog lookup that follows is destructured at once, so a material
  that the category does not list raises (\<open>Inl TypeError\<close>). The reassignments
  \<open>baseLow *= ...\<close> are successive bindings of the same name.
\<close>

definition calculateRoofingCost :: "CalculatorFormData \<Rightarrow> error + CostBreakdown option" where
  "calculateRoofingCost formData =
     (if roofSize formData = 0 \<or> material formData = [] \<or> roofSize formData \<le> 0
      then Inr None
      else
        (case materialPricing (roofingType formData) (material formData) of
           None \<Rightarrow> Inl TypeError
         | Some (lowCost, highCost) \<Rightarrow>
             (let midCost = (lowCost + highCost) / 2;
                  baseLow = roofSize formData * lowCost;
                  baseMid = roofSize formData * midCost;
                  baseHigh = roofSize formData * highCost;
                  complexityMultiplier = complexityMultipliers (complexity formData);
                  laborMultiplier = 1 + complexityMultiplier * (4 / 10);
                  baseLow = baseLow * laborMultiplier;
                  baseMid = baseMid * laborMultiplier;
                  baseHigh = baseHigh * laborMultiplier;
                  baseLow = (if roofingType formData = Commercial
                             then baseLow * (11 / 10) else baseLow);
                  baseMid = (if roofingType formData = Commercial
                             then baseMid * (11 / 10) else baseMid);
                  baseHigh = (if roofingType formData = Commercial
                              then baseHigh * (11 / 10) else baseHigh);
                  addons0 = 0;
                  addons1 = (if tearoff formData \<and> jobType formData = Replacement
                             then addons0 + roofSize formData * (15 / 10) else addons0);
                  addons2 = (if permits formData then addons1 + 500 else addons1);
                  baseLow = (if jobType formData = Repair
                             then baseLow * (6 / 10) else baseLow);
                  baseMid = (if jobType formData = Repair
                             then baseMid * (6 / 10) else baseMid);
                  baseHigh = (if jobType formData = Repair
                              then baseHigh * (6 / 10) else baseHigh);
                  totalLow' = baseLow + addons2;
                  totalHigh' = baseHigh + addons2;
                  totalMid' = baseMid + addons2;
                  materialsCost = totalMid' * (6 / 10);
                  laborCost = totalMid' * (4 / 10)
              in Inr (Some \<lparr>materials = materialsCost,
                             labor = laborCost,
                             addons = addons2,
                             totalLow = totalLow',
                             totalHigh = totalHigh',
                             totalMid = totalMid'\<rparr>))))"

section \<open>Area estimator\<close>

text \<open>The local table \<open>pitchMultipliers\<close> of \<open>calculateRoofSize\<close>.\<close>

fun pitchMultipliers :: "PitchType \<Rightarrow> real" where
  "pitchMultipliers Flat = 1"
| "pitchMultipliers Low = 11 / 10"
| "pitchMultipliers MediumPitch = 13 / 10"
| "pitchMultipliers Steep = 15 / 10"

text \<open>
  \<open>calculateRoofSize\<close>. \<open>Math.round\<close> rounds to the nearest integer with ties towards
  plus infinity, which is \<open>round\<close> on the reals (\<open>round x = \<lfloor>x + 1 / 2\<rfloor>\<close>). The argument
  is the exact product here; the code rounds it to a double first, which matters only
  for an argument within rounding error of a tie.
\<close>

definition calculateRoofSize :: "RoofSizeHelperData \<Rightarrow> int" where
  "calculateRoofSize data =
     (if footprint data = 0 \<or> footprint data \<le> 0 then 0
      else
        (let perimeter = 4 * sqrt (footprint data);
             overhangSqFt = (perimeter * overhang data) / 12;
             pitchMultiplier = pitchMultipliers (pitch data);
             wasteMultiplier = 1125 / 1000
         in round ((footprint data + overhangSqFt) * pitchMultiplier * wasteMultiplier)))"

section \<open>Binary64 arithmetic\<close>

text \<open>
  Rounding to binary64: a non-zero \<open>x\<close> with \<open>2 ^ e \<le> \<bar>x\<bar> < 2 ^ (e + 1)\<close> is rounded to the
  nearest multiple of \<open>2 ^ (e - 52)\<close>, a tie going to the even multiple. The exponent is
  not bounded, so the model is the machine's as long as no result overflows or falls
  below the smallest normal number. \<open>ilog2 x\<close> is the exponent \<open>e\<close> of a positive \<open>x\<close>,
  computed from the bit length of \<open>\<lfloor>x\<rfloor>\<close>, or of \<open>\<lceil>1 / x\<rceil> - 1\<close> below 1.
\<close>

definition ilog2 :: "real \<Rightarrow> int" where
  "ilog2 x = (if 1 \<le> x then bitlen \<lfloor>x\<rfloor> - 1 else - bitlen (\<lceil>1 / x\<rceil> - 1))"

definition roundTiesToEven :: "real \<Rightarrow> int" where
  "roundTiesToEven y =
     (let f = \<lfloor>y\<rfloor>; r = y - of_int f
      in if r < 1 / 2 then f else if 1 / 2 < r then f + 1 else if even f then f else f + 1)"

definition round64 :: "real \<Rightarrow> real" where
  "round64 x =
     (if x = 0 then 0
      else
        (let e = ilog2 \<bar>x\<bar> - 52
         in sgn x * of_int (roundTiesToEven (\<bar>x\<bar> / 2 powi e)) * 2 powi e))"

text \<open>
  The operators \<open>*\<close>, \<open>+\<close> and \<open>/\<close> of the source on doubles: the exact result, rounded.
\<close>

definition mul64 :: "real \<Rightarrow> real \<Rightarrow> real" where
  "mul64 a b = round64 (a * b)"

definition add64 :: "real \<Rightarrow> real \<Rightarrow> real" where
  "add64 a b = round64 (a + b)"

definition div64 :: "real \<Rightarrow> real \<Rightarrow> real" where
  "div64 a b = round64 (a / b)"

text \<open>
  \<open>calculateRoofingCost\<close> on doubles: the same guard, lookup and sequence of
  reassignments as above, with every operation rounded and every decimal literal
  (\<open>0.2\<close>, \<open>0.4\<close>, \<open>1.1\<close>, \<open>1.5\<close>, \<open>0.6\<close>) replaced by the double nearest to it. The integers
  and the catalog's prices are doubles already (\<open>materialPricing_representable\<close>).
\<close>

definition calculateRoofingCost64 :: "CalculatorFormData \<Rightarrow> error + CostBreakdown option" where
  "calculateRoofingCost64 formData =
     (if roofSize formData = 0 \<or> material formData = [] \<or> roofSize formData \<le> 0
      then Inr None
      else
        (case materialPricing (roofingType formData) (material formData) of
           None \<Rightarrow> Inl TypeError
         | Some (lowCost, highCost) \<Rightarrow>
             (let midCost = div64 (add64 lowCost highCost) 2;
                  baseLow = mul64 (roofSize formData) lowCost;
                  baseMid = mul64 (roofSize formData) midCost;
                  baseHigh = mul64 (roofSize formData) highCost;
                  complexityMultiplier = round64 (complexityMultipliers (complexity formData));
                  laborMultiplier = add64 1 (mul64 complexityMultiplier (round64 (4 / 10)));
                  baseLow = mul64 baseLow laborMultiplier;
                  baseMid = mul64 baseMid laborMultiplier;
                  baseHigh = mul64 baseHigh laborMultiplier;
                  baseLow = (if roofingType formData = Commercial
                             then mul64 baseLow (round64 (11 / 10)) else baseLow);
                  baseMid = (if roofingType formData = Commercial
                             then mul64 baseMid (round64 (11 / 10)) else baseMid);
                  baseHigh = (if roofingType formData = Commercial
                              then mul64 baseHigh (round64 (11 / 10)) else baseHigh);
                  addons0 = 0;
                  addons1 = (if tearoff formData \<and> jobType formData = Replacement
                             then add64 addons0 (mul64 (roofSize formData) (round64 (15 / 10)))
                             else addons0);
                  addons2 = (if permits formData then add64 addons1 500 else addons1);
                  baseLow = (if jobType formData = Repair
                             then mul64 baseLow (round64 (6 / 10)) else baseLow);
                  baseMid = (if jobType formData = Repair
                             then mul64 baseMid (round64 (6 / 10)) else baseMid);
                  baseHigh = (if jobType formData = Repair
                              then mul64 baseHigh (round64 (6 / 10)) else baseHigh);
                  totalLow' = add64 baseLow addons2;
                  totalHigh' = add64 baseHigh addons2;
                  totalMid' = add64 baseMid addons2;
                  materialsCost = mul64 totalMid' (round64 (6 / 10));
                  laborCost = mul64 totalMid' (round64 (4 / 10))
              in Inr (Some \<lparr>materials = materialsCost,
                             labor = laborCost,
                             addons = addons2,
                             totalLow = totalLow',
                             totalHigh = totalHigh',
                             totalMid = totalMid'\<rparr>))))"

text \<open>
  The areas for which the doubles of the model are the machine's: for an area in this
  range every non-zero intermediate result of the cost estimator lies between
  \<open>2 ^ - 1002\<close> and \<open>2 ^ 1006\<close>, inside the normal range of binary64.
\<close>

definition normalRange :: "real \<Rightarrow> bool" where
  "normalRange x = (1 / 2 ^ 1000 \<le> x \<and> x \<le> 2 ^ 1000)"

text \<open>
  \<open>closeTo n y x\<close>: \<open>y\<close> is \<open>x\<close> after at most \<open>n\<close> roundings of a non-negative value.
\<close>

definition closeTo :: "nat \<Rightarrow> real \<Rightarrow> real \<Rightarrow> bool" where
  "closeTo n y x = (x * (1 - 1 / 2 ^ 53) ^ n \<le> y \<and> y \<le> x * (1 + 1 / 2 ^ 53) ^ n)"

section \<open>Facts about the catalog\<close>

lemma materialPricing_empty: "materialPricing rt [] = None"
  by (cases rt) (simp_all add: materialPricing_def)

lemma materialPricing_ordered:
  "materialPricing rt m = Some (lo, hi) \<Longrightarrow> 0 < lo \<and> lo \<le> hi"
  by (cases rt) (auto simp: materialPricing_def split: if_splits)

lemma materialPricing_nonempty:
  "materialPricing rt m = Some p \<Longrightarrow> m \<noteq> []"
  using materialPricing_empty [of rt] by auto

section \<open>The guard of the cost estimator\<close>

lemma calculateRoofingCost_nonpositive:
  "roofSize fd \<le> 0 \<Longrightarrow> calculateRoofingCost fd = Inr None"
  by (simp add: calculateRoofingCost_def)

lemma calculateRoofingCost_no_material:
  "material fd = [] \<Longrightarrow> calculateRoofingCost fd = Inr None"
  by (simp add: calculateRoofingCost_def)

lemma calculateRoofingCost_absent:
  assumes "0 < roofSize fd" and "material fd \<noteq> []"
    and "materialPricing (roofingType fd) (material fd) = None"
  shows "calculateRoofingCost fd = Inl TypeError"
  using assms by (simp add: calculateRoofingCost_def)

text \<open>
  C1. The estimator is claimed to return \<open>null\<close>, and never to raise, when the material is
  not in the category's catalog. The guard covers a non-positive area and the empty
  material only (the two lemmas above); the TPO membrane, which only the commercial
  catalog lists, requested for a residential roof of 1000 square feet passes the guard,
  and the destructuring of the failed lookup raises.
\<close>

theorem C1_absent_material_raises:
  "materialPricing Residential ''tpo'' = None
   \<and> materialPricing Commercial ''tpo'' = Some (4, 8)
   \<and> calculateRoofingCost
        \<lparr>roofingType = Residential, roofSize = 1000, material = ''tpo'', jobType = New,
         complexity = Simple, tearoff = False, permits = False\<rparr> = Inl TypeError"
  by (simp add: calculateRoofingCost_def materialPricing_def)

section \<open>Cost estimator: the result of a valid request\<close>

text \<open>
  A request with a positive area and a material of the category's catalog passes the
  guard and the lookup; the breakdown it returns is the one computed by the chain of
  reassignments, written here as one expression per field.
\<close>

lemma calculateRoofingCost_valid:
  assumes "0 < roofSize fd"
    and "materialPricing (roofingType fd) (material fd) = Some (lo, hi)"
  shows "calculateRoofingCost fd =
    (let chain = (\<lambda>price. roofSize fd * price
                     * (1 + complexityMultipliers (complexity fd) * (4 / 10))
                     * (if roofingType fd = Commercial then 11 / 10 else 1)
                     * (if jobType fd = Repair then 6 / 10 else 1));
         extras = (if tearoff fd \<and> jobType fd = Replacement then roofSize fd * (15 / 10) else 0)
                    + (if permits fd then 500 else 0)
     in Inr (Some \<lparr>materials = (chain ((lo + hi) / 2) + extras) * (6 / 10),
       labor = (chain ((lo + hi) / 2) + extras) * (4 / 10),
       addons = extras,
       totalLow = chain lo + extras,
       totalHigh = chain hi + extras,
       totalMid = chain ((lo + hi) / 2) + extras\<rparr>))"
  using assms materialPricing_nonempty [OF assms(2)]
  by (simp add: calculateRoofingCost_def Let_def)

text \<open>
  C3. For every valid request the display fields come from the mid total alone:
  materials is 0.6 of it, labor is 0.4 of it, and the add-ons field is the add-ons value
  itself (1.5 per unit of area for a replacement with tear-off, plus 500 for permits).
\<close>

theorem C3_display_fields:
  assumes "0 < roofSize fd"
    and "materialPricing (roofingType fd) (material fd) = Some (lo, hi)"
  shows "\<exists>b. calculateRoofingCost fd = Inr (Some b)
           \<and> materials b = totalMid b * (6 / 10)
           \<and> labor b = totalMid b * (4 / 10)
           \<and> addons b =
               (if jobType fd = Replacement \<and> tearoff fd then roofSize fd * (15 / 10) else 0)
                 + (if permits fd then 500 else 0)"
  using calculateRoofingCost_valid [OF assms] by (simp add: Let_def)

theorem C3_display_fields_witness:
  "(0::real) < 1000
   \<and> materialPricing Residential ''asphalt'' = Some (5, 10)
   \<and> (\<exists>b. calculateRoofingCost
              \<lparr>roofingType = Residential, roofSize = 1000, material = ''asphalt'',
               jobType = Replacement, complexity = Simple, tearoff = True, permits = True\<rparr>
              = Inr (Some b)
          \<and> totalMid b = 9500
          \<and> materials b = totalMid b * (6 / 10) \<and> materials b = 5700
          \<and> labor b = totalMid b * (4 / 10) \<and> labor b = 3800
          \<and> addons b = 2000)"
proof -
  let ?fd = "\<lparr>roofingType = Residential, roofSize = 1000, material = ''asphalt'',
               jobType = Replacement, complexity = Simple, tearoff = True, permits = True\<rparr>"
  have h1: "0 < roofSize ?fd" by simp
  have h2: "materialPricing (roofingType ?fd) (material ?fd) = Some (5, 10)"
    by (simp add: materialPricing_def)
  have ev: "calculateRoofingCost ?fd
      = Inr (Some \<lparr>materials = 5700, labor = 3800, addons = 2000,
                   totalLow = 7000, totalHigh = 12000, totalMid = 9500\<rparr>)"
    by (simp add: calculateRoofingCost_def materialPricing_def Let_def)
  show ?thesis
    using C3_display_fields [OF h1 h2] h2 ev by auto
qed

text \<open>
  C4. For every valid request the low total is at most the mid total, which is at most
  the high total; the catalog's pairs all have low at most high
  (\<open>materialPricing_ordered\<close>).
\<close>

theorem C4_totals_ordered:
  assumes "0 < roofSize fd"
    and "materialPricing (roofingType fd) (material fd) = Some (lo, hi)"
  shows "\<exists>b. calculateRoofingCost fd = Inr (Some b)
           \<and> totalLow b \<le> totalMid b \<and> totalMid b \<le> totalHigh b"
proof -
  have ord: "lo \<le> (lo + hi) / 2" "(lo + hi) / 2 \<le> hi"
    using materialPricing_ordered [OF assms(2)] by simp_all
  have cm: "0 \<le> 1 + complexityMultipliers (complexity fd) * (4 / 10)"
    by (cases "complexity fd") simp_all
  have mono: "roofSize fd * x * (1 + complexityMultipliers (complexity fd) * (4 / 10))
                * (if roofingType fd = Commercial then 11 / 10 else 1)
                * (if jobType fd = Repair then 6 / 10 else 1)
              \<le> roofSize fd * y * (1 + complexityMultipliers (complexity fd) * (4 / 10))
                * (if roofingType fd = Commercial then 11 / 10 else 1)
                * (if jobType fd = Repair then 6 / 10 else 1)" if "x \<le> y" for x y
    using that assms(1) cm by (intro mult_right_mono mult_left_mono) simp_all
  show ?thesis
    using calculateRoofingCost_valid [OF assms] mono [OF ord(1)] mono [OF ord(2)]
    by (simp add: Let_def)
qed

theorem C4_totals_ordered_witness:
  "(0::real) < 1850
   \<and> materialPricing Commercial ''modified'' = Some (9 / 2, 9)
   \<and> (\<exists>b. calculateRoofingCost
              \<lparr>roofingType = Commercial, roofSize = 1850, material = ''modified'',
               jobType = Repair, complexity = Medium, tearoff = True, permits = True\<rparr>
              = Inr (Some b)
          \<and> totalLow b \<le> totalMid b \<and> totalMid b \<le> totalHigh b)"
proof -
  let ?fd = "\<lparr>roofingType = Commercial, roofSize = 1850, material = ''modified'',
               jobType = Repair, complexity = Medium, tearoff = True, permits = True\<rparr>"
  have h1: "0 < roofSize ?fd" by simp
  have h2: "materialPricing (roofingType ?fd) (material ?fd) = Some (9 / 2, 9)"
    by (simp add: materialPricing_def)
  show ?thesis
    using C4_totals_ordered [OF h1 h2] h2 by auto
qed

text \<open>
  C6. For every valid request the add-ons value is area * 1.5 if the job is a replacement
  with tear-off (else 0) plus 500 if permits are requested (else 0). It is added as it is
  to the three totals: each total is the total of the same request without the two
  flags, which is the scaled base alone, plus the add-ons value.
\<close>

theorem C6_addons_additive:
  assumes "0 < roofSize fd"
    and "materialPricing (roofingType fd) (material fd) = Some (lo, hi)"
  shows "\<exists>b b0. calculateRoofingCost fd = Inr (Some b)
           \<and> calculateRoofingCost (fd\<lparr>tearoff := False, permits := False\<rparr>) = Inr (Some b0)
           \<and> addons b =
               (if jobType fd = Replacement \<and> tearoff fd then roofSize fd * (15 / 10) else 0)
                 + (if permits fd then 500 else 0)
           \<and> addons b0 = 0
           \<and> totalLow b = totalLow b0 + addons b
           \<and> totalMid b = totalMid b0 + addons b
           \<and> totalHigh b = totalHigh b0 + addons b
           \<and> totalLow b0 =
               roofSize fd * lo * (1 + complexityMultipliers (complexity fd) * (4 / 10))
                 * (if roofingType fd = Commercial then 11 / 10 else 1)
                 * (if jobType fd = Repair then 6 / 10 else 1)
           \<and> totalMid b0 =
               roofSize fd * ((lo + hi) / 2)
                 * (1 + complexityMultipliers (complexity fd) * (4 / 10))
                 * (if roofingType fd = Commercial then 11 / 10 else 1)
                 * (if jobType fd = Repair then 6 / 10 else 1)
           \<and> totalHigh b0 =
               roofSize fd * hi * (1 + complexityMultipliers (complexity fd) * (4 / 10))
                 * (if roofingType fd = Commercial then 11 / 10 else 1)
                 * (if jobType fd = Repair then 6 / 10 else 1)"
proof -
  let ?fd0 = "fd\<lparr>tearoff := False, permits := False\<rparr>"
  have h0: "0 < roofSize ?fd0"
      "materialPricing (roofingType ?fd0) (material ?fd0) = Some (lo, hi)"
    using assms by simp_all
  show ?thesis
    using calculateRoofingCost_valid [OF assms] calculateRoofingCost_valid [OF h0]
    by (simp add: Let_def)
qed

theorem C6_addons_additive_witness:
  "(0::real) < 2000
   \<and> materialPricing Commercial ''metal'' = Some (8, 15)
   \<and> (\<exists>b b0.
        calculateRoofingCost
          \<lparr>roofingType = Commercial, roofSize = 2000, material = ''metal'',
           jobType = Replacement, complexity = Complex, tearoff = True, permits = True\<rparr>
          = Inr (Some b)
        \<and> calculateRoofingCost
          \<lparr>roofingType = Commercial, roofSize = 2000, material = ''metal'',
           jobType = Replacement, complexity = Complex, tearoff = False, permits = False\<rparr>
          = Inr (Some b0)
        \<and> addons b = 3500 \<and> addons b0 = 0
        \<and> totalLow b0 = 20416 \<and> totalLow b = 23916
        \<and> totalMid b0 = 29348 \<and> totalMid b = 32848
        \<and> totalHigh b0 = 38280 \<and> totalHigh b = 41780)"
proof -
  let ?fd = "\<lparr>roofingType = Commercial, roofSize = 2000, material = ''metal'',
           jobType = Replacement, complexity = Complex, tearoff = True, permits = True\<rparr>"
  have h1: "0 < roofSize ?fd" by simp
  have h2: "materialPricing (roofingType ?fd) (material ?fd) = Some (8, 15)"
    by (simp add: materialPricing_def)
  show ?thesis
    using C6_addons_additive [OF h1 h2] h2 by auto
qed

section \<open>Area estimator: properties\<close>

lemma sqrt_1000_bounds:
  "316227 / 10000 < sqrt 1000" "sqrt 1000 < 316228 / 10000"
  by (rule real_less_rsqrt, simp add: power2_eq_square)
     (rule real_less_lsqrt, simp_all add: power2_eq_square)

lemma calculateRoofSize_scenario_value:
  "round ((1000 + 4 * sqrt 1000 * 12 / 12) * (13 / 10) * (1125 / 1000)) = 1647"
proof -
  let ?x = "(1000 + 4 * sqrt 1000 * 12 / 12) * (13 / 10) * (1125 / 1000)"
  have "1647 - 1 / 2 \<le> ?x" and "?x < 1647 + 1 / 2"
    using sqrt_1000_bounds by simp_all
  then show ?thesis
    unfolding round_def by linarith
qed

text \<open>
  C7 (as stated). For a footprint of 1000, an overhang of 12 inches and a medium pitch the
  area estimator is claimed to return 1648. It does not.
\<close>

theorem C7_scenario_counterexample:
  "calculateRoofSize \<lparr>footprint = 1000, overhang = 12, pitch = MediumPitch\<rparr> \<noteq> 1648"
  using calculateRoofSize_scenario_value by (simp add: calculateRoofSize_def)

text \<open>
  C7 (amended). For a footprint of 1000, an overhang of 12 inches and a medium pitch the
  area estimator returns 1647: the perimeter is 4 times the square root of 1000, the
  overhang is divided by 12, and (1000 + 4 sqrt 1000) * 1.3 * 1.125, which lies
  strictly between 1647.49 and 1647.50, is rounded to the nearest integer.
\<close>

theorem C7_scenario_value:
  "calculateRoofSize \<lparr>footprint = 1000, overhang = 12, pitch = MediumPitch\<rparr>
     = round ((1000 + 4 * sqrt 1000 * 12 / 12) * (13 / 10) * (1125 / 1000))
   \<and> 164749 / 100 < (1000 + 4 * sqrt 1000 * 12 / 12) * (13 / 10) * (1125 / 1000)
   \<and> (1000 + 4 * sqrt 1000 * 12 / 12) * (13 / 10) * (1125 / 1000) < 164750 / 100
   \<and> calculateRoofSize \<lparr>footprint = 1000, overhang = 12, pitch = MediumPitch\<rparr> = 1647"
proof -
  have "calculateRoofSize \<lparr>footprint = 1000, overhang = 12, pitch = MediumPitch\<rparr>
          = round ((1000 + 4 * sqrt 1000 * 12 / 12) * (13 / 10) * (1125 / 1000))"
    by (simp add: calculateRoofSize_def)
  moreover have "164749 / 100 < (1000 + 4 * sqrt 1000 * 12 / 12) * (13 / 10) * (1125 / 1000)"
    using sqrt_1000_bounds(1) by simp
  moreover have "(1000 + 4 * sqrt 1000 * 12 / 12) * (13 / 10) * (1125 / 1000) < 164750 / 100"
    using sqrt_1000_bounds(2) by simp
  ultimately show ?thesis
    using calculateRoofSize_scenario_value by simp
qed

text \<open>
  C8. Whatever the overhang and the pitch, the area estimator returns 0 when the
  footprint is zero or negative.
\<close>

theorem C8_nonpositive_footprint:
  "footprint data \<le> 0 \<Longrightarrow> calculateRoofSize data = 0"
  by (simp add: calculateRoofSize_def)

theorem C8_nonpositive_footprint_witness:
  "footprint \<lparr>footprint = - 250, overhang = 18, pitch = Steep\<rparr> \<le> 0
   \<and> calculateRoofSize \<lparr>footprint = - 250, overhang = 18, pitch = Steep\<rparr> = 0
   \<and> calculateRoofSize \<lparr>footprint = 0, overhang = 12, pitch = Flat\<rparr> = 0"
  using C8_nonpositive_footprint [of "\<lparr>footprint = - 250, overhang = 18, pitch = Steep\<rparr>"]
    C8_nonpositive_footprint [of "\<lparr>footprint = 0, overhang = 12, pitch = Flat\<rparr>"]
  by simp

text \<open>
  C10. The overhang is not validated: with a footprint of 1 and an overhang of -100 the
  area estimator returns a negative integer for every pitch, so an input with a positive
  footprint, a negative overhang and a negative result exists.
\<close>

theorem C10_negative_overhang_negative_area:
  "calculateRoofSize \<lparr>footprint = 1, overhang = - 100, pitch = Flat\<rparr> = - 36
   \<and> calculateRoofSize \<lparr>footprint = 1, overhang = - 100, pitch = Low\<rparr> = - 40
   \<and> calculateRoofSize \<lparr>footprint = 1, overhang = - 100, pitch = MediumPitch\<rparr> = - 47
   \<and> calculateRoofSize \<lparr>footprint = 1, overhang = - 100, pitch = Steep\<rparr> = - 55
   \<and> calculateRoofSize \<lparr>footprint = 1, overhang = - 100, pitch = p\<rparr> < 0
   \<and> (\<exists>d. 0 < footprint d \<and> overhang d < 0 \<and> calculateRoofSize d < 0)"
proof -
  have neg: "calculateRoofSize \<lparr>footprint = 1, overhang = - 100, pitch = q\<rparr> < 0" for q
    by (cases q; simp add: calculateRoofSize_def round_def)
  have "\<exists>d. 0 < footprint d \<and> overhang d < 0 \<and> calculateRoofSize d < 0"
  proof (intro exI conjI)
    show "calculateRoofSize \<lparr>footprint = 1, overhang = - 100, pitch = Flat\<rparr> < 0"
      by (rule neg)
  qed simp_all
  moreover have "calculateRoofSize \<lparr>footprint = 1, overhang = - 100, pitch = Flat\<rparr> = - 36"
    by (simp add: calculateRoofSize_def round_def)
  moreover have "calculateRoofSize \<lparr>footprint = 1, overhang = - 100, pitch = Low\<rparr> = - 40"
    by (simp add: calculateRoofSize_def round_def)
  moreover have
    "calculateRoofSize \<lparr>footprint = 1, overhang = - 100, pitch = MediumPitch\<rparr> = - 47"
    by (simp add: calculateRoofSize_def round_def)
  moreover have "calculateRoofSize \<lparr>footprint = 1, overhang = - 100, pitch = Steep\<rparr> = - 55"
    by (simp add: calculateRoofSize_def round_def)
  ultimately show ?thesis
    using neg [of p] by simp
qed

section \<open>Binary64 rounding: properties\<close>

text \<open>
  \<open>eval64\<close> evaluates the rounding of a numeral by rewriting. The lemmas after it give
  the exponent found by \<open>ilog2\<close>, the relative error \<open>2 ^ - 53\<close> of a rounding, and the
  doubles of the literals of the source.
\<close>

lemmas eval64 = mul64_def add64_def div64_def round64_def ilog2_def roundTiesToEven_def
  compute_bitlen

lemma bitlen_powi:
  assumes "0 < n"
  shows "2 powi (bitlen n - 1) \<le> real_of_int n" and "real_of_int n < 2 powi bitlen n"
proof -
  have b: "1 \<le> bitlen n" using assms by (simp add: bitlen_alt_def)
  from bitlen_bounds [OF assms]
  have "real_of_int (2 ^ nat (bitlen n - 1)) \<le> real_of_int n"
    and "real_of_int n < real_of_int (2 ^ nat (bitlen n))"
    by (simp_all only: of_int_le_iff of_int_less_iff)
  then show "2 powi (bitlen n - 1) \<le> real_of_int n" and "real_of_int n < 2 powi bitlen n"
    using b by (simp_all add: power_int_def)
qed

lemma ilog2_bounds_conj:
  assumes "0 < x"
  shows "2 powi ilog2 x \<le> x \<and> x < 2 powi (ilog2 x + 1)"
proof (cases "1 \<le> x")
  case True
  then have p: "0 < \<lfloor>x\<rfloor>" by linarith
  have e: "ilog2 x = bitlen \<lfloor>x\<rfloor> - 1" using True by (simp add: ilog2_def)
  have "real_of_int \<lfloor>x\<rfloor> \<le> x" and "x < real_of_int \<lfloor>x\<rfloor> + 1" by linarith+
  moreover have "real_of_int \<lfloor>x\<rfloor> + 1 \<le> 2 powi bitlen \<lfloor>x\<rfloor>"
  proof -
    have "\<lfloor>x\<rfloor> + 1 \<le> 2 ^ nat (bitlen \<lfloor>x\<rfloor>)"
      using bitlen_bounds [OF p] by simp
    then have "real_of_int (\<lfloor>x\<rfloor> + 1) \<le> real_of_int (2 ^ nat (bitlen \<lfloor>x\<rfloor>))"
      by (simp only: of_int_le_iff)
    then show ?thesis using bitlen_nonneg [of "\<lfloor>x\<rfloor>"] by (simp add: power_int_def)
  qed
  ultimately show ?thesis
    using bitlen_powi(1) [OF p] unfolding e by (simp only: diff_add_cancel) linarith
next
  case False
  with assms have y: "1 < 1 / x" by simp
  let ?c = "\<lceil>1 / x\<rceil> - 1"
  from y have p: "0 < ?c" by linarith
  have e: "ilog2 x = - bitlen ?c" using False by (simp add: ilog2_def)
  have c1: "real_of_int ?c < 1 / x" and c2: "1 / x \<le> real_of_int ?c + 1" by linarith+
  have up: "real_of_int ?c + 1 \<le> 2 powi bitlen ?c"
  proof -
    have "?c + 1 \<le> 2 ^ nat (bitlen ?c)"
      using bitlen_bounds [OF p] by simp
    then have "real_of_int (?c + 1) \<le> real_of_int (2 ^ nat (bitlen ?c))"
      by (simp only: of_int_le_iff)
    then show ?thesis using bitlen_nonneg [of ?c] by (simp add: power_int_def)
  qed
  have pos: "(0::real) < 2 powi k" for k by (simp add: power_int_def)
  have "1 / x \<le> 2 powi bitlen ?c" using c2 up by linarith
  then have "1 / 2 powi bitlen ?c \<le> x"
    using assms pos [of "bitlen ?c"] by (simp add: field_simps)
  then have A: "2 powi ilog2 x \<le> x"
    unfolding e by (simp add: power_int_minus divide_inverse)
  have "2 powi (bitlen ?c - 1) < 1 / x" using bitlen_powi(1) [OF p] c1 by linarith
  then have "x < 1 / 2 powi (bitlen ?c - 1)"
    using assms pos [of "bitlen ?c - 1"] by (simp add: field_simps)
  moreover have "- bitlen ?c + 1 = - (bitlen ?c - 1)" by simp
  ultimately have "x < 2 powi (ilog2 x + 1)"
    unfolding e by (simp only: power_int_minus divide_inverse mult_1)
  with A show ?thesis by simp
qed

lemma ilog2_bounds:
  assumes "0 < x"
  shows "2 powi ilog2 x \<le> x" and "x < 2 powi (ilog2 x + 1)"
  using ilog2_bounds_conj [OF assms] by simp_all


lemma ilog2_unique:
  assumes "0 < x" and "2 powi k \<le> x" and "x < 2 powi (k + 1)"
  shows "ilog2 x = k"
proof (rule antisym)
  show "ilog2 x \<le> k"
  proof (rule ccontr)
    assume "\<not> ilog2 x \<le> k"
    then have "k + 1 \<le> ilog2 x" by simp
    then have "(2::real) powi (k + 1) \<le> 2 powi ilog2 x"
      by (intro power_int_increasing) simp_all
    with ilog2_bounds(1) [OF assms(1)] assms(3) show False by linarith
  qed
  show "k \<le> ilog2 x"
  proof (rule ccontr)
    assume "\<not> k \<le> ilog2 x"
    then have "ilog2 x + 1 \<le> k" by simp
    then have "(2::real) powi (ilog2 x + 1) \<le> 2 powi k"
      by (intro power_int_increasing) simp_all
    with ilog2_bounds(2) [OF assms(1)] assms(2) show False by linarith
  qed
qed

lemma round64_eval:
  assumes "0 < x" and "2 powi (e + 52) \<le> x" and "x < 2 powi (e + 53)"
  shows "round64 x = of_int (roundTiesToEven (x / 2 powi e)) * 2 powi e"
proof -
  have "ilog2 x = e + 52"
    using assms by (intro ilog2_unique) (simp_all add: add.commute add.left_commute)
  with assms(1) show ?thesis
    by (simp add: round64_def)
qed

lemma roundTiesToEven_error: "\<bar>of_int (roundTiesToEven y) - y\<bar> \<le> 1 / 2"
  unfolding roundTiesToEven_def Let_def by (auto; linarith)

lemma round64_error: "\<bar>round64 x - x\<bar> \<le> \<bar>x\<bar> / 2 ^ 53"
proof (cases "x = 0")
  case True
  then show ?thesis by (simp add: round64_def)
next
  case False
  define a where "a = \<bar>x\<bar>"
  define e where "e = ilog2 a - 52"
  define s where "s = (2::real) powi e"
  have a: "0 < a" using False by (simp add: a_def)
  have s: "0 < s" by (simp add: s_def power_int_def)
  have lo: "2 powi (e + 52) \<le> a" using ilog2_bounds(1) [OF a] by (simp add: e_def)
  have "(2::real) powi (e + 52) = s * 2 ^ 52"
    by (simp add: s_def power_int_add)
  with lo have lo': "s * 2 ^ 52 \<le> a" by simp
  have r: "round64 x = sgn x * (of_int (roundTiesToEven (a / s)) * s)"
    using False by (simp add: round64_def a_def e_def s_def Let_def mult.assoc)
  have x: "x = sgn x * a" by (simp add: a_def sgn_mult_abs)
  have "\<bar>round64 x - x\<bar> = \<bar>sgn x * (of_int (roundTiesToEven (a / s)) * s - a)\<bar>"
    by (subst r, subst (2) x) (simp add: algebra_simps)
  also have "\<dots> = \<bar>of_int (roundTiesToEven (a / s)) * s - a\<bar>"
    using False by (simp add: abs_mult abs_sgn_eq)
  also have "\<dots> = \<bar>of_int (roundTiesToEven (a / s)) - a / s\<bar> * s"
    using s by (simp add: abs_mult [symmetric] field_simps del: abs_mult)
  also have "\<dots> \<le> (1 / 2) * s"
    using roundTiesToEven_error [of "a / s"] s by (intro mult_right_mono) simp_all
  also have "\<dots> \<le> a / 2 ^ 53"
    using lo' by (simp add: field_simps)
  finally show ?thesis by (simp add: a_def)
qed

lemma normalRange_pos: "normalRange x \<Longrightarrow> 0 < x"
proof -
  assume "normalRange x"
  then have "1 / 2 ^ 1000 \<le> x" by (simp add: normalRange_def)
  moreover have "(0::real) < 1 / 2 ^ 1000" by simp
  ultimately show ?thesis by linarith
qed

lemma roundTiesToEven_nonneg: "0 \<le> y \<Longrightarrow> 0 \<le> roundTiesToEven y"
  unfolding roundTiesToEven_def Let_def by (auto; linarith)

lemma round64_nonneg: "0 \<le> x \<Longrightarrow> 0 \<le> round64 x"
  by (auto simp: round64_def Let_def intro!: mult_nonneg_nonneg roundTiesToEven_nonneg)

lemma round64_bounds:
  assumes "0 \<le> x"
  shows "x * (1 - 1 / 2 ^ 53) \<le> round64 x" and "round64 x \<le> x * (1 + 1 / 2 ^ 53)"
proof -
  have "\<bar>round64 x - x\<bar> \<le> x / 2 ^ 53"
    using round64_error [of x] assms by simp
  then have "- (x / 2 ^ 53) \<le> round64 x - x" and "round64 x - x \<le> x / 2 ^ 53"
    by linarith+
  then show "x * (1 - 1 / 2 ^ 53) \<le> round64 x" and "round64 x \<le> x * (1 + 1 / 2 ^ 53)"
    by (simp_all add: algebra_simps)
qed

lemma mul64_nonneg: "0 \<le> a \<Longrightarrow> 0 \<le> b \<Longrightarrow> 0 \<le> mul64 a b"
  by (simp add: mul64_def round64_nonneg)

lemma add64_nonneg: "0 \<le> a \<Longrightarrow> 0 \<le> b \<Longrightarrow> 0 \<le> add64 a b"
  by (simp add: add64_def round64_nonneg)

lemma div64_nonneg: "0 \<le> a \<Longrightarrow> 0 \<le> b \<Longrightarrow> 0 \<le> div64 a b"
  by (simp add: div64_def round64_nonneg)

lemma round64_pos: "0 < x \<Longrightarrow> 0 < round64 x"
proof -
  assume x: "0 < x"
  then have "0 < x * (1 - 1 / 2 ^ 53)" by simp
  with round64_bounds(1) [of x] x show ?thesis by linarith
qed

lemma round64_literals:
  "round64 (4 / 10) = 3602879701896397 / 9007199254740992"
  "round64 (6 / 10) = 5404319552844595 / 9007199254740992"
  "round64 (11 / 10) = 2476979795053773 / 2251799813685248"
  "round64 (15 / 10) = 3 / 2"
  "round64 (2 / 10) = 3602879701896397 / 18014398509481984"
  "round64 0 = 0"
  by (simp_all add: eval64 Let_def)

lemma round64_prices:
  "round64 4 = 4" "round64 5 = 5" "round64 7 = 7" "round64 8 = 8" "round64 9 = 9"
  "round64 10 = 10" "round64 11 = 11" "round64 12 = 12" "round64 15 = 15" "round64 20 = 20"
  "round64 25 = 25" "round64 40 = 40" "round64 (9 / 2) = 9 / 2" "round64 (11 / 2) = 11 / 2"
  by (simp_all add: eval64 Let_def)

lemma round64_halves:
  "lo * 2 = 9 \<Longrightarrow> round64 lo = lo" "lo * 2 = 11 \<Longrightarrow> round64 lo = lo"
proof -
  show "round64 lo = lo" if "lo * 2 = 9"
  proof -
    from that have "lo = 9 / 2" by simp
    then show ?thesis by (simp only: round64_prices)
  qed
  show "round64 lo = lo" if "lo * 2 = 11"
  proof -
    from that have "lo = 11 / 2" by simp
    then show ?thesis by (simp only: round64_prices)
  qed
qed

lemma materialPricing_representable:
  "materialPricing rt m = Some (lo, hi) \<Longrightarrow> round64 lo = lo \<and> round64 hi = hi"
  by (cases rt) (auto simp: materialPricing_def round64_prices round64_halves split: if_splits)

section \<open>Propagation of the rounding error\<close>

text \<open>
  Each rounded product of non-negative values adds one factor between \<open>1 - 2 ^ - 53\<close>
  and \<open>1 + 2 ^ - 53\<close>; the chain of the cost estimator rounds at most four times, a total
  five times, materials and labor six times.
\<close>

lemma closeTo_refl: "closeTo 0 x x"
  by (simp add: closeTo_def)

lemma closeTo_nonneg: "0 \<le> x \<Longrightarrow> closeTo n y x \<Longrightarrow> 0 \<le> y"
proof -
  assume x: "0 \<le> x" and w: "closeTo n y x"
  have "(0::real) \<le> (1 - 1 / 2 ^ 53) ^ n" by simp
  with x have "0 \<le> x * (1 - 1 / 2 ^ 53) ^ n" by (rule mult_nonneg_nonneg)
  with w show ?thesis by (simp add: closeTo_def)
qed

lemma closeTo_round64:
  assumes "0 \<le> x" and "closeTo n y x"
  shows "closeTo (Suc n) (round64 y) x"
proof -
  have y: "0 \<le> y" using assms by (rule closeTo_nonneg)
  have lo: "x * (1 - 1 / 2 ^ 53) ^ n \<le> y" and hi: "y \<le> x * (1 + 1 / 2 ^ 53) ^ n"
    using assms(2) by (simp_all add: closeTo_def)
  have "x * (1 - 1 / 2 ^ 53) ^ n * (1 - 1 / 2 ^ 53) \<le> y * (1 - 1 / 2 ^ 53)"
    using lo by (intro mult_right_mono) simp_all
  also have "\<dots> \<le> round64 y" using round64_bounds(1) [OF y] .
  finally have A: "x * (1 - 1 / 2 ^ 53) ^ Suc n \<le> round64 y" by (simp add: mult.assoc mult.commute)
  have "round64 y \<le> y * (1 + 1 / 2 ^ 53)" using round64_bounds(2) [OF y] .
  also have "\<dots> \<le> x * (1 + 1 / 2 ^ 53) ^ n * (1 + 1 / 2 ^ 53)"
    using hi by (intro mult_right_mono) simp_all
  finally have B: "round64 y \<le> x * (1 + 1 / 2 ^ 53) ^ Suc n" by (simp add: mult.assoc mult.commute)
  from A B show ?thesis unfolding closeTo_def by blast
qed

lemma closeTo_mult:
  assumes "0 \<le> c" and "closeTo n y x"
  shows "closeTo n (y * c) (x * c)"
proof -
  have lo: "x * (1 - 1 / 2 ^ 53) ^ n \<le> y" and hi: "y \<le> x * (1 + 1 / 2 ^ 53) ^ n"
    using assms(2) by (simp_all add: closeTo_def)
  have "x * (1 - 1 / 2 ^ 53) ^ n * c \<le> y * c" using lo assms(1) by (rule mult_right_mono)
  moreover have "y * c \<le> x * (1 + 1 / 2 ^ 53) ^ n * c" using hi assms(1) by (rule mult_right_mono)
  ultimately show ?thesis unfolding closeTo_def by (simp add: mult.assoc mult.commute mult.left_commute)
qed

lemma closeTo_Suc:
  assumes "0 \<le> x" and "closeTo n y x"
  shows "closeTo (Suc n) y x"
proof -
  have lo: "x * (1 - 1 / 2 ^ 53) ^ n \<le> y" and hi: "y \<le> x * (1 + 1 / 2 ^ 53) ^ n"
    using assms(2) by (simp_all add: closeTo_def)
  have "x * ((1 - 1 / 2 ^ 53) ^ n * (1 - 1 / 2 ^ 53)) \<le> x * ((1 - 1 / 2 ^ 53) ^ n * 1)"
    using assms(1) by (intro mult_left_mono) simp_all
  with lo have A: "x * (1 - 1 / 2 ^ 53) ^ Suc n \<le> y" by (simp add: mult.commute)
  have "x * ((1 + 1 / 2 ^ 53) ^ n * 1) \<le> x * ((1 + 1 / 2 ^ 53) ^ n * (1 + 1 / 2 ^ 53))"
    using assms(1) by (intro mult_left_mono) simp_all
  with hi have B: "y \<le> x * (1 + 1 / 2 ^ 53) ^ Suc n" by (simp add: mult.commute)
  from A B show ?thesis unfolding closeTo_def by blast
qed

lemma closeTo_mul64:
  assumes "0 \<le> x" and "0 \<le> c" and "closeTo n y x"
  shows "closeTo (Suc n) (mul64 y c) (x * c)"
  unfolding mul64_def
  using assms by (intro closeTo_round64 closeTo_mult mult_nonneg_nonneg)

lemma closeTo_chain64:
  assumes a: "0 \<le> a" and p: "0 \<le> p" and lm: "0 \<le> lm"
  shows "closeTo 4
           (let base = mul64 (mul64 a p) lm;
                base = (if com then mul64 base (round64 (11 / 10)) else base)
            in if rep then mul64 base (round64 (6 / 10)) else base)
           (a * p * lm * (if com then round64 (11 / 10) else 1)
              * (if rep then round64 (6 / 10) else 1))"
proof -
  have c11: "0 \<le> round64 (11 / 10)" and c06: "0 \<le> round64 (6 / 10)"
    by (simp_all add: round64_nonneg)
  have "closeTo (Suc 0) (mul64 a p) (a * p)"
    by (rule closeTo_mul64 [OF a p closeTo_refl])
  then have 1: "closeTo 1 (mul64 a p) (a * p)" by simp
  have ap: "0 \<le> a * p" using a p by simp
  have 2: "closeTo 2 (mul64 (mul64 a p) lm) (a * p * lm)"
    using closeTo_mul64 [OF ap lm 1] by (simp add: numeral_2_eq_2)
  have apl: "0 \<le> a * p * lm" using ap lm by simp
  define x3 where "x3 = a * p * lm * (if com then round64 (11 / 10) else 1)"
  define y3 where
    "y3 = (if com then mul64 (mul64 (mul64 a p) lm) (round64 (11 / 10))
           else mul64 (mul64 a p) lm)"
  have 3: "closeTo 3 y3 x3"
  proof (cases com)
    case True
    then show ?thesis
      using closeTo_mul64 [OF apl c11 2] by (simp add: x3_def y3_def numeral_3_eq_3)
  next
    case False
    then show ?thesis
      using closeTo_Suc [OF apl 2] by (simp add: x3_def y3_def numeral_3_eq_3)
  qed
  have x3: "0 \<le> x3" unfolding x3_def using apl c11 by simp
  have 4: "closeTo 4 (if rep then mul64 y3 (round64 (6 / 10)) else y3)
             (x3 * (if rep then round64 (6 / 10) else 1))"
  proof (cases rep)
    case True
    have "closeTo (Suc 3) (mul64 y3 (round64 (6 / 10))) (x3 * round64 (6 / 10))"
      by (rule closeTo_mul64 [OF x3 c06 3])
    with True show ?thesis by simp
  next
    case False
    have "closeTo (Suc 3) y3 x3" by (rule closeTo_Suc [OF x3 3])
    with False show ?thesis by simp
  qed
  then show ?thesis
    unfolding Let_def x3_def y3_def .
qed

lemma closeTo_6:
  assumes "0 \<le> x" and "closeTo 6 y x"
  shows "x * (1 - 6 / 2 ^ 53) \<le> y" and "y \<le> x * (1 + 7 / 2 ^ 53)"
proof -
  have L: "1 - 6 / 2 ^ 53 \<le> ((1::real) - 1 / 2 ^ 53) ^ 6"
    by (simp add: power_divide)
  have U: "((1::real) + 1 / 2 ^ 53) ^ 6 \<le> 1 + 7 / 2 ^ 53"
    by (simp add: power_divide)
  have "x * (1 - 6 / 2 ^ 53) \<le> x * (1 - 1 / 2 ^ 53) ^ 6"
    using assms(1) L by (rule mult_left_mono [rotated])
  also have "\<dots> \<le> y" using assms(2) by (simp add: closeTo_def)
  finally show "x * (1 - 6 / 2 ^ 53) \<le> y" .
  have "y \<le> x * (1 + 1 / 2 ^ 53) ^ 6" using assms(2) by (simp add: closeTo_def)
  also have "\<dots> \<le> x * (1 + 7 / 2 ^ 53)"
    using assms(1) U by (rule mult_left_mono [rotated])
  finally show "y \<le> x * (1 + 7 / 2 ^ 53)" .
qed

lemma closeTo_scale:
  assumes k: "0 \<le> k" and x: "0 \<le> x"
    and y: "closeTo 6 y x" and y': "closeTo 6 y' (k * x)"
  shows "\<bar>y' - k * y\<bar> \<le> k * y / 2 ^ 49"
proof -
  define z where "z = k * x"
  define w where "w = k * y"
  have z0: "0 \<le> z" unfolding z_def using k x by simp
  have "k * (x * (1 - 6 / 2 ^ 53)) \<le> k * y"
    by (rule mult_left_mono [OF closeTo_6(1) [OF x y] k])
  moreover have "k * y \<le> k * (x * (1 + 7 / 2 ^ 53))"
    by (rule mult_left_mono [OF closeTo_6(2) [OF x y] k])
  ultimately have w: "z * (1 - 6 / 2 ^ 53) \<le> w" "w \<le> z * (1 + 7 / 2 ^ 53)"
    unfolding z_def w_def by (simp_all add: mult.assoc)
  have v: "z * (1 - 6 / 2 ^ 53) \<le> y'" "y' \<le> z * (1 + 7 / 2 ^ 53)"
    using closeTo_6 [OF z0 y' [folded z_def]] by simp_all
  have "y' - w \<le> w / 2 ^ 49" and "- (y' - w) \<le> w / 2 ^ 49"
    using w v z0 by simp_all
  then show ?thesis unfolding w_def by (rule abs_leI)
qed

section \<open>Cost estimator on doubles: the result of a valid request\<close>

text \<open>
  The guard and the lookup do not depend on the arithmetic: the two embeddings return
  \<open>null\<close> and raise on the same requests.
\<close>

lemma calculateRoofingCost64_same_outcome:
  "(calculateRoofingCost64 fd = Inr None) = (calculateRoofingCost fd = Inr None)"
  "(calculateRoofingCost64 fd = Inl e) = (calculateRoofingCost fd = Inl e)"
  by (auto simp: calculateRoofingCost64_def calculateRoofingCost_def Let_def
      split: option.splits prod.splits)

lemma calculateRoofingCost64_valid:
  assumes "0 < roofSize fd"
    and "materialPricing (roofingType fd) (material fd) = Some (lo, hi)"
  shows "calculateRoofingCost64 fd =
    (let laborMultiplier =
           add64 1 (mul64 (round64 (complexityMultipliers (complexity fd))) (round64 (4 / 10)));
         chain = (\<lambda>price.
           let base = mul64 (mul64 (roofSize fd) price) laborMultiplier;
               base = (if roofingType fd = Commercial
                       then mul64 base (round64 (11 / 10)) else base)
           in if jobType fd = Repair then mul64 base (round64 (6 / 10)) else base);
         extras0 = (if tearoff fd \<and> jobType fd = Replacement
                    then add64 0 (mul64 (roofSize fd) (round64 (15 / 10))) else 0);
         extras = (if permits fd then add64 extras0 500 else extras0);
         mid = div64 (add64 lo hi) 2
     in Inr (Some \<lparr>materials = mul64 (add64 (chain mid) extras) (round64 (6 / 10)),
       labor = mul64 (add64 (chain mid) extras) (round64 (4 / 10)),
       addons = extras,
       totalLow = add64 (chain lo) extras,
       totalHigh = add64 (chain hi) extras,
       totalMid = add64 (chain mid) extras\<rparr>))"
  using assms materialPricing_nonempty [OF assms(2)]
  by (simp add: calculateRoofingCost64_def Let_def)

lemma laborMultiplier64_nonneg:
  "0 \<le> add64 1 (mul64 (round64 (complexityMultipliers c)) (round64 (4 / 10)))"
  by (cases c) (simp_all add: add64_nonneg mul64_nonneg round64_nonneg)

lemma chain64_nonneg:
  assumes "0 \<le> a" and "0 \<le> p" and "0 \<le> lm"
  shows "0 \<le> (let base = mul64 (mul64 a p) lm;
                   base = (if com then mul64 base (round64 (11 / 10)) else base)
               in if rep then mul64 base (round64 (6 / 10)) else base)"
  using assms by (simp add: Let_def mul64_nonneg round64_nonneg)

lemma extras64_nonneg:
  assumes "0 \<le> a"
  shows "0 \<le> (if perm then add64 (if tear then add64 0 (mul64 a (round64 (15 / 10))) else 0) 500
               else (if tear then add64 0 (mul64 a (round64 (15 / 10))) else 0))"
  using assms by (simp add: add64_nonneg mul64_nonneg round64_nonneg)

lemma midCost64_nonneg:
  "materialPricing rt m = Some (lo, hi) \<Longrightarrow> 0 \<le> div64 (add64 lo hi) 2"
  using materialPricing_ordered [of rt m lo hi]
  by (simp add: div64_nonneg add64_nonneg)

lemma breakdown64_sum:
  assumes T: "0 \<le> T" and a: "0 \<le> a"
  shows "\<bar>mul64 T (round64 (6 / 10)) + mul64 T (round64 (4 / 10)) - T\<bar> \<le> T / 2 ^ 51"
    and "\<bar>add64 (add64 (mul64 T (round64 (6 / 10))) (mul64 T (round64 (4 / 10)))) a - (T + a)\<bar>
           \<le> (T + a) / 2 ^ 51"
proof -
  define m where "m = mul64 T (round64 (6 / 10))"
  define l where "l = mul64 T (round64 (4 / 10))"
  define s1 where "s1 = add64 m l"
  define s2 where "s2 = add64 s1 a"
  have m0: "0 \<le> m" and l0: "0 \<le> l"
    using T by (simp_all add: m_def l_def mul64_nonneg round64_nonneg)
  have s0: "0 \<le> s1" using m0 l0 unfolding s1_def by (rule add64_nonneg)
  have c6: "0 \<le> T * (5404319552844595 / 9007199254740992)"
    and c4: "0 \<le> T * (3602879701896397 / 9007199254740992)"
    using T by simp_all
  have m: "T * (5404319552844595 / 9007199254740992) * (1 - 1 / 2 ^ 53) \<le> m"
      "m \<le> T * (5404319552844595 / 9007199254740992) * (1 + 1 / 2 ^ 53)"
    unfolding m_def mul64_def round64_literals using round64_bounds [OF c6] by blast+
  have l: "T * (3602879701896397 / 9007199254740992) * (1 - 1 / 2 ^ 53) \<le> l"
      "l \<le> T * (3602879701896397 / 9007199254740992) * (1 + 1 / 2 ^ 53)"
    unfolding l_def mul64_def round64_literals using round64_bounds [OF c4] by blast+
  have ml0: "0 \<le> m + l" using m0 l0 by simp
  have s1: "(m + l) * (1 - 1 / 2 ^ 53) \<le> s1" "s1 \<le> (m + l) * (1 + 1 / 2 ^ 53)"
    unfolding s1_def add64_def using round64_bounds [OF ml0] by blast+
  have sa0: "0 \<le> s1 + a" using s0 a by simp
  have s2: "(s1 + a) * (1 - 1 / 2 ^ 53) \<le> s2" "s2 \<le> (s1 + a) * (1 + 1 / 2 ^ 53)"
    unfolding s2_def add64_def using round64_bounds [OF sa0] by blast+
  have "m + l - T \<le> T / 2 ^ 51" and "- (m + l - T) \<le> T / 2 ^ 51"
    using m l T by simp_all
  then show "\<bar>mul64 T (round64 (6 / 10)) + mul64 T (round64 (4 / 10)) - T\<bar> \<le> T / 2 ^ 51"
    unfolding m_def l_def by (rule abs_leI)
  have "s2 - (T + a) \<le> (T + a) / 2 ^ 51" and "- (s2 - (T + a)) \<le> (T + a) / 2 ^ 51"
    using m l s1 s2 T a by simp_all
  then show "\<bar>add64 (add64 (mul64 T (round64 (6 / 10))) (mul64 T (round64 (4 / 10)))) a - (T + a)\<bar>
           \<le> (T + a) / 2 ^ 51"
    unfolding s2_def s1_def m_def l_def by (rule abs_leI)
qed

lemma extras64_zero_iff:
  assumes "0 < a"
  shows "((if perm then add64 (if tear then add64 0 (mul64 a (round64 (15 / 10))) else 0) 500
           else (if tear then add64 0 (mul64 a (round64 (15 / 10))) else 0)) = 0)
         = (\<not> tear \<and> \<not> perm)"
proof -
  have t: "0 < add64 0 (mul64 a (round64 (15 / 10)))"
    using assms by (simp add: add64_def mul64_def round64_literals round64_pos)
  have p: "0 < add64 e 500" if "0 \<le> e" for e
    using that by (simp add: add64_def round64_pos)
  show ?thesis
    using t p [of 0] p [OF less_imp_le [OF t]] by (cases perm; cases tear) simp_all
qed

lemma fields64_closeTo:
  assumes a: "0 < roofSize fd"
    and m: "materialPricing (roofingType fd) (material fd) = Some (lo, hi)"
    and t: "\<not> tearoff fd" and q: "\<not> permits fd"
  defines "lm \<equiv>
    add64 1 (mul64 (round64 (complexityMultipliers (complexity fd))) (round64 (4 / 10)))"
  defines "C \<equiv> (if roofingType fd = Commercial then round64 (11 / 10) else 1)"
  defines "R \<equiv> (if jobType fd = Repair then round64 (6 / 10) else 1)"
  shows "\<exists>b. calculateRoofingCost64 fd = Inr (Some b)
           \<and> closeTo 6 (totalLow b) (roofSize fd * lo * lm * C * R)
           \<and> closeTo 6 (totalMid b) (roofSize fd * div64 (add64 lo hi) 2 * lm * C * R)
           \<and> closeTo 6 (totalHigh b) (roofSize fd * hi * lm * C * R)
           \<and> closeTo 6 (materials b)
                (roofSize fd * div64 (add64 lo hi) 2 * lm * C * R * round64 (6 / 10))
           \<and> closeTo 6 (labor b)
                (roofSize fd * div64 (add64 lo hi) 2 * lm * C * R * round64 (4 / 10))"
proof -
  define chain where
    "chain = (\<lambda>price. let base = mul64 (mul64 (roofSize fd) price) lm;
                 base = (if roofingType fd = Commercial
                         then mul64 base (round64 (11 / 10)) else base)
             in if jobType fd = Repair then mul64 base (round64 (6 / 10)) else base)"
  define mid where "mid = div64 (add64 lo hi) 2"
  define T where "T = add64 (chain mid) 0"
  define b where
    "b = \<lparr>materials = mul64 T (round64 (6 / 10)), labor = mul64 T (round64 (4 / 10)),
          addons = 0, totalLow = add64 (chain lo) 0, totalHigh = add64 (chain hi) 0,
          totalMid = T\<rparr>"
  have r: "calculateRoofingCost64 fd = Inr (Some b)"
    unfolding calculateRoofingCost64_valid [OF a m] b_def T_def chain_def mid_def lm_def
    using t q by (simp add: Let_def)
  have a0: "0 \<le> roofSize fd" using a by simp
  have lm0: "0 \<le> lm" unfolding lm_def by (rule laborMultiplier64_nonneg)
  have C0: "0 \<le> C" and R0: "0 \<le> R"
    by (simp_all add: C_def R_def round64_nonneg)
  have lo0: "0 \<le> lo" and hi0: "0 \<le> hi"
    using materialPricing_ordered [OF m] by simp_all
  have mid0: "0 \<le> mid" unfolding mid_def using m by (rule midCost64_nonneg)
  have ch: "closeTo 4 (chain p) (roofSize fd * p * lm * C * R)" if "0 \<le> p" for p
    unfolding chain_def C_def R_def by (rule closeTo_chain64 [OF a0 that lm0])
  have id: "0 \<le> roofSize fd * p * lm * C * R" if "0 \<le> p" for p
    using a0 that lm0 C0 R0 by simp
  have tot5: "closeTo (Suc 4) (add64 (chain p) 0) (roofSize fd * p * lm * C * R)"
    if "0 \<le> p" for p
    using closeTo_round64 [OF id [OF that] ch [OF that]] by (simp add: add64_def)
  have tot: "closeTo 6 (add64 (chain p) 0) (roofSize fd * p * lm * C * R)" if "0 \<le> p" for p
    using closeTo_Suc [OF id [OF that] tot5 [OF that]] by (simp add: eval_nat_numeral)
  have c6: "0 \<le> round64 (6 / 10)" and c4: "0 \<le> round64 (4 / 10)"
    by (simp_all add: round64_nonneg)
  have mat: "closeTo 6 (mul64 T (round64 (6 / 10)))
               (roofSize fd * mid * lm * C * R * round64 (6 / 10))"
    using closeTo_mul64 [OF id [OF mid0] c6 tot5 [OF mid0]]
    unfolding T_def by (simp add: eval_nat_numeral)
  have lab: "closeTo 6 (mul64 T (round64 (4 / 10)))
               (roofSize fd * mid * lm * C * R * round64 (4 / 10))"
    using closeTo_mul64 [OF id [OF mid0] c4 tot5 [OF mid0]]
    unfolding T_def by (simp add: eval_nat_numeral)
  show ?thesis
    using r tot [OF lo0] tot [OF mid0] tot [OF hi0] mat lab
    unfolding b_def T_def mid_def by (intro exI [of _ b]) (simp add: b_def T_def mid_def)
qed

lemma scenario64_steps:
  "add64 1 (mul64 (round64 (complexityMultipliers Complex)) (round64 (4 / 10)))
     = 326510972984361 / 281474976710656"
  "mul64 1000 (div64 (add64 4 8) 2) = 6000"
  "mul64 6000 (326510972984361 / 281474976710656) = 7652600929320961 / 1099511627776"
  "mul64 (7652600929320961 / 1099511627776) (round64 (11 / 10))
     = 4208930511126529 / 549755813888"
  "add64 (4208930511126529 / 549755813888) 500 = 4483808418070529 / 549755813888"
  "mul64 (mul64 (mul64 1000 4) (326510972984361 / 281474976710656)) (round64 (11 / 10))
     = 2805953674084353 / 549755813888"
  "mul64 (mul64 (mul64 1000 4) (round64 (11 / 10))) (326510972984361 / 281474976710656)
     = 5611907348168705 / 1099511627776"
  "mul64 (add64 (7652600929320961 / 1099511627776) 500) (round64 (11 / 10))
     = 4511296208764929 / 549755813888"
  by (simp_all add: eval64 Let_def)

lemma scenario64_value:
  "calculateRoofingCost64
        \<lparr>roofingType = Commercial, roofSize = 1000, material = ''tpo'', jobType = New,
         complexity = Complex, tearoff = False, permits = True\<rparr>
   = Inr (Some \<lparr>materials = 5380570101684635 / 1099511627776,
                labor = 7174093468912847 / 2199023255552, addons = 500,
                totalLow = 3080831581028353 / 549755813888,
                totalHigh = 2943392627556353 / 274877906944,
                totalMid = 4483808418070529 / 549755813888\<rparr>)"
  unfolding calculateRoofingCost64_def
  apply (simp add: materialPricing_def Let_def)
  apply (simp add: eval64 Let_def)
  done

section \<open>Cost estimator on doubles: properties\<close>

text \<open>
  C2 (as stated). The three display components are claimed to sum to the mid total, up
  to floating-point tolerance, for every valid request, also when the add-ons are not
  zero. For 1000 square feet of residential asphalt, new installation, simple roof, with
  permits, the code's doubles are 4800, 3200 and 500 against a mid total of 8000: the sum
  is 8500, in double arithmetic as in exact arithmetic, and misses the mid total by 500.
\<close>

theorem C2_sum_counterexample:
  "(case calculateRoofingCost64
           \<lparr>roofingType = Residential, roofSize = 1000, material = ''asphalt'',
            jobType = New, complexity = Simple, tearoff = False, permits = True\<rparr> of
      Inr (Some b) \<Rightarrow>
        totalMid b = 8000 \<and> materials b = 4800 \<and> labor b = 3200 \<and> addons b = 500
        \<and> add64 (add64 (materials b) (labor b)) (addons b) = 8500
        \<and> materials b + labor b + addons b - totalMid b = 500
    | _ \<Rightarrow> False)"
  unfolding calculateRoofingCost64_def
  apply (simp add: materialPricing_def Let_def)
  apply (simp add: eval64 Let_def)
  done

text \<open>
  C2 (amended). For every valid request, with an area in the range where nothing
  overflows or underflows, the three components sum to the mid total plus the add-ons,
  up to floating-point tolerance: the relative error is at most \<open>2 ^ - 51\<close>,
  whether the sum is taken exactly or in double arithmetic. So they sum to the mid total,
  within that tolerance, when the add-ons are zero, which is the case exactly when
  permits are not requested and no tear-off is charged.
\<close>

theorem C2_breakdown_sum_tolerance:
  assumes "normalRange (roofSize fd)"
    and "materialPricing (roofingType fd) (material fd) = Some (lo, hi)"
  shows "\<exists>b. calculateRoofingCost64 fd = Inr (Some b)
           \<and> \<bar>materials b + labor b - totalMid b\<bar> \<le> totalMid b / 2 ^ 51
           \<and> \<bar>materials b + labor b + addons b - (totalMid b + addons b)\<bar>
               \<le> totalMid b / 2 ^ 51
           \<and> \<bar>add64 (add64 (materials b) (labor b)) (addons b) - (totalMid b + addons b)\<bar>
               \<le> (totalMid b + addons b) / 2 ^ 51
           \<and> (addons b = 0 \<longrightarrow>
                \<bar>materials b + labor b + addons b - totalMid b\<bar> \<le> totalMid b / 2 ^ 51
                \<and> \<bar>add64 (add64 (materials b) (labor b)) (addons b) - totalMid b\<bar>
                     \<le> totalMid b / 2 ^ 51)
           \<and> (addons b = 0) = (\<not> (tearoff fd \<and> jobType fd = Replacement) \<and> \<not> permits fd)"
proof -
  have a: "0 < roofSize fd" using assms(1) by (rule normalRange_pos)
  have p: "0 \<le> div64 (add64 lo hi) 2" using assms(2) by (rule midCost64_nonneg)
  define lm where
    "lm = add64 1 (mul64 (round64 (complexityMultipliers (complexity fd))) (round64 (4 / 10)))"
  define base where
    "base = (let base = mul64 (mul64 (roofSize fd) (div64 (add64 lo hi) 2)) lm;
                 base = (if roofingType fd = Commercial
                         then mul64 base (round64 (11 / 10)) else base)
             in if jobType fd = Repair then mul64 base (round64 (6 / 10)) else base)"
  define extras where
    "extras = (if permits fd
               then add64 (if tearoff fd \<and> jobType fd = Replacement
                           then add64 0 (mul64 (roofSize fd) (round64 (15 / 10))) else 0) 500
               else (if tearoff fd \<and> jobType fd = Replacement
                     then add64 0 (mul64 (roofSize fd) (round64 (15 / 10))) else 0))"
  define T where "T = add64 base extras"
  define b where
    "b = \<lparr>materials = mul64 T (round64 (6 / 10)), labor = mul64 T (round64 (4 / 10)),
          addons = extras,
          totalLow = add64 (let base = mul64 (mul64 (roofSize fd) lo) lm;
                 base = (if roofingType fd = Commercial
                         then mul64 base (round64 (11 / 10)) else base)
             in if jobType fd = Repair then mul64 base (round64 (6 / 10)) else base) extras,
          totalHigh = add64 (let base = mul64 (mul64 (roofSize fd) hi) lm;
                 base = (if roofingType fd = Commercial
                         then mul64 base (round64 (11 / 10)) else base)
             in if jobType fd = Repair then mul64 base (round64 (6 / 10)) else base) extras,
          totalMid = T\<rparr>"
  have r: "calculateRoofingCost64 fd = Inr (Some b)"
    unfolding calculateRoofingCost64_valid [OF a assms(2)] b_def T_def base_def extras_def lm_def
    by (simp add: Let_def)
  have lm0: "0 \<le> lm" unfolding lm_def by (rule laborMultiplier64_nonneg)
  have base0: "0 \<le> base"
    unfolding base_def using a p lm0 by (intro chain64_nonneg) simp_all
  have extras0: "0 \<le> extras"
    unfolding extras_def using a by (intro extras64_nonneg) simp
  have T0: "0 \<le> T" unfolding T_def using base0 extras0 by (rule add64_nonneg)
  have z: "(extras = 0) = (\<not> (tearoff fd \<and> jobType fd = Replacement) \<and> \<not> permits fd)"
    unfolding extras_def by (rule extras64_zero_iff [OF a])
  have f: "materials b = mul64 T (round64 (6 / 10))" "labor b = mul64 T (round64 (4 / 10))"
      "addons b = extras" "totalMid b = T"
    by (simp_all add: b_def)
  have s: "\<bar>materials b + labor b - totalMid b\<bar> \<le> totalMid b / 2 ^ 51"
    unfolding f by (rule breakdown64_sum(1) [OF T0 extras0])
  have s': "\<bar>add64 (add64 (materials b) (labor b)) (addons b) - (totalMid b + addons b)\<bar>
               \<le> (totalMid b + addons b) / 2 ^ 51"
    unfolding f by (rule breakdown64_sum(2) [OF T0 extras0])
  have "materials b + labor b + addons b - (totalMid b + addons b)
          = materials b + labor b - totalMid b" by simp
  with s have s'': "\<bar>materials b + labor b + addons b - (totalMid b + addons b)\<bar>
               \<le> totalMid b / 2 ^ 51" by simp
  have s0: "addons b = 0 \<longrightarrow>
                \<bar>materials b + labor b + addons b - totalMid b\<bar> \<le> totalMid b / 2 ^ 51
                \<and> \<bar>add64 (add64 (materials b) (labor b)) (addons b) - totalMid b\<bar>
                     \<le> totalMid b / 2 ^ 51"
    using s' s'' by auto
  show ?thesis
    using r s s' s'' s0 z f(3) by blast
qed

theorem C2_breakdown_sum_tolerance_witness:
  "normalRange 1000
   \<and> materialPricing Residential ''asphalt'' = Some (5, 10)
   \<and> (\<exists>b. calculateRoofingCost64
              \<lparr>roofingType = Residential, roofSize = 1000, material = ''asphalt'',
               jobType = New, complexity = Complex, tearoff = False, permits = False\<rparr>
              = Inr (Some b)
          \<and> addons b = 0
          \<and> \<bar>materials b + labor b + addons b - totalMid b\<bar> \<le> totalMid b / 2 ^ 51
          \<and> \<bar>add64 (add64 (materials b) (labor b)) (addons b) - totalMid b\<bar>
               \<le> totalMid b / 2 ^ 51)"
proof -
  let ?fd = "\<lparr>roofingType = Residential, roofSize = 1000, material = ''asphalt'',
               jobType = New, complexity = Complex, tearoff = False, permits = False\<rparr>"
  have h1: "normalRange (roofSize ?fd)" by (simp add: normalRange_def)
  have h2: "materialPricing (roofingType ?fd) (material ?fd) = Some (5, 10)"
    by (simp add: materialPricing_def)
  obtain b where b: "calculateRoofingCost64 ?fd = Inr (Some b)"
      "\<bar>materials b + labor b + addons b - (totalMid b + addons b)\<bar> \<le> totalMid b / 2 ^ 51"
      "\<bar>add64 (add64 (materials b) (labor b)) (addons b) - (totalMid b + addons b)\<bar>
               \<le> (totalMid b + addons b) / 2 ^ 51"
      "addons b = 0"
    using C2_breakdown_sum_tolerance [OF h1 h2] by auto
  have "normalRange 1000" using h1 by simp
  moreover have "materialPricing Residential ''asphalt'' = Some (5, 10)" using h2 by simp
  ultimately show ?thesis
    using b by (intro conjI exI [of _ b]) simp_all
qed

text \<open>
  C5 (as stated). For 1000 square feet of commercial TPO (4 to 8), complex roof, new
  installation, permits and no tear-off, the mid total is claimed to be 8156. On the
  code's doubles the labor factor \<open>1 + 0.4 * 0.4\<close> is 1.1600000000000001, and the mid total
  is 8156 plus \<open>2 ^ - 39\<close>.
\<close>

theorem C5_scenario_counterexample:
  "(case calculateRoofingCost64
           \<lparr>roofingType = Commercial, roofSize = 1000, material = ''tpo'', jobType = New,
            complexity = Complex, tearoff = False, permits = True\<rparr> of
      Inr (Some b) \<Rightarrow> totalMid b \<noteq> 8156 \<and> totalMid b - 8156 = 1 / 2 ^ 39
    | _ \<Rightarrow> False)"
  unfolding calculateRoofingCost64_def
  apply (simp add: materialPricing_def Let_def)
  apply (simp add: eval64 Let_def)
  done

text \<open>
  C5 (amended). The multipliers are applied to the base in the order complexity,
  commercial premium, repair reduction, each product rounded to a double, and the
  add-ons are added last: this is the expression of the three totals of every valid
  request with an area in the range where nothing overflows or underflows. For 1000 square feet of commercial TPO (4 to 8), complex roof, new
  installation, permits and no tear-off, the labor factor is 1.1600000000000001, the mid
  base 6000 becomes 6960.000000000001, then 7656.000000000002 after the commercial
  premium, and the mid total is 8156.000000000002, which is 8156 up to \<open>2 ^ - 39\<close>. The
  order is observable: in this scenario the low base with the premium applied before the
  complexity factor is another double, and so is the mid total with the add-ons added
  before the premium.
\<close>

theorem C5_multiplier_chain:
  "(\<forall>fd lo hi.
      normalRange (roofSize fd)
        \<and> materialPricing (roofingType fd) (material fd) = Some (lo, hi) \<longrightarrow>
      (\<exists>b. calculateRoofingCost64 fd = Inr (Some b)
         \<and> totalLow b =
             add64
               (let base = mul64 (roofSize fd) lo;
                    base = mul64 base
                      (add64 1 (mul64 (round64 (complexityMultipliers (complexity fd)))
                                      (round64 (4 / 10))));
                    base = (if roofingType fd = Commercial
                            then mul64 base (round64 (11 / 10)) else base)
                in if jobType fd = Repair then mul64 base (round64 (6 / 10)) else base)
               (addons b)
         \<and> totalMid b =
             add64
               (let base = mul64 (roofSize fd) (div64 (add64 lo hi) 2);
                    base = mul64 base
                      (add64 1 (mul64 (round64 (complexityMultipliers (complexity fd)))
                                      (round64 (4 / 10))));
                    base = (if roofingType fd = Commercial
                            then mul64 base (round64 (11 / 10)) else base)
                in if jobType fd = Repair then mul64 base (round64 (6 / 10)) else base)
               (addons b)
         \<and> totalHigh b =
             add64
               (let base = mul64 (roofSize fd) hi;
                    base = mul64 base
                      (add64 1 (mul64 (round64 (complexityMultipliers (complexity fd)))
                                      (round64 (4 / 10))));
                    base = (if roofingType fd = Commercial
                            then mul64 base (round64 (11 / 10)) else base)
                in if jobType fd = Repair then mul64 base (round64 (6 / 10)) else base)
               (addons b)))
   \<and> add64 1 (mul64 (round64 (complexityMultipliers Complex)) (round64 (4 / 10)))
       = 326510972984361 / 281474976710656
   \<and> mul64 1000 (div64 (add64 4 8) 2) = 6000
   \<and> mul64 6000 (326510972984361 / 281474976710656) = 7652600929320961 / 1099511627776
   \<and> mul64 (7652600929320961 / 1099511627776) (round64 (11 / 10))
       = 4208930511126529 / 549755813888
   \<and> add64 (4208930511126529 / 549755813888) 500 = 4483808418070529 / 549755813888
   \<and> calculateRoofingCost64
        \<lparr>roofingType = Commercial, roofSize = 1000, material = ''tpo'', jobType = New,
         complexity = Complex, tearoff = False, permits = True\<rparr>
       = Inr (Some \<lparr>materials = 5380570101684635 / 1099511627776,
                    labor = 7174093468912847 / 2199023255552, addons = 500,
                    totalLow = 3080831581028353 / 549755813888,
                    totalHigh = 2943392627556353 / 274877906944,
                    totalMid = 4483808418070529 / 549755813888\<rparr>)
   \<and> (case calculateRoofingCost64
               \<lparr>roofingType = Commercial, roofSize = 1000, material = ''tpo'', jobType = New,
                complexity = Complex, tearoff = False, permits = True\<rparr> of
          Inr (Some b) \<Rightarrow> \<bar>totalMid b - 8156\<bar> \<le> 1 / 2 ^ 39
        | _ \<Rightarrow> False)
   \<and> mul64 (mul64 (mul64 1000 4) (326510972984361 / 281474976710656)) (round64 (11 / 10))
       \<noteq> mul64 (mul64 (mul64 1000 4) (round64 (11 / 10))) (326510972984361 / 281474976710656)
   \<and> mul64 (add64 (mul64 6000 (326510972984361 / 281474976710656)) 500) (round64 (11 / 10))
       \<noteq> add64 (mul64 (mul64 6000 (326510972984361 / 281474976710656)) (round64 (11 / 10))) 500"
proof -
  have gen: "\<exists>b. calculateRoofingCost64 fd = Inr (Some b)
         \<and> totalLow b =
             add64
               (let base = mul64 (roofSize fd) lo;
                    base = mul64 base
                      (add64 1 (mul64 (round64 (complexityMultipliers (complexity fd)))
                                      (round64 (4 / 10))));
                    base = (if roofingType fd = Commercial
                            then mul64 base (round64 (11 / 10)) else base)
                in if jobType fd = Repair then mul64 base (round64 (6 / 10)) else base)
               (addons b)
         \<and> totalMid b =
             add64
               (let base = mul64 (roofSize fd) (div64 (add64 lo hi) 2);
                    base = mul64 base
                      (add64 1 (mul64 (round64 (complexityMultipliers (complexity fd)))
                                      (round64 (4 / 10))));
                    base = (if roofingType fd = Commercial
                            then mul64 base (round64 (11 / 10)) else base)
                in if jobType fd = Repair then mul64 base (round64 (6 / 10)) else base)
               (addons b)
         \<and> totalHigh b =
             add64
               (let base = mul64 (roofSize fd) hi;
                    base = mul64 base
                      (add64 1 (mul64 (round64 (complexityMultipliers (complexity fd)))
                                      (round64 (4 / 10))));
                    base = (if roofingType fd = Commercial
                            then mul64 base (round64 (11 / 10)) else base)
                in if jobType fd = Repair then mul64 base (round64 (6 / 10)) else base)
               (addons b)"
    if "normalRange (roofSize fd)
          \<and> materialPricing (roofingType fd) (material fd) = Some (lo, hi)"
    for fd lo hi
  proof -
    from that have h: "0 < roofSize fd"
        "materialPricing (roofingType fd) (material fd) = Some (lo, hi)"
      by (simp_all add: normalRange_pos)
    show ?thesis
      unfolding calculateRoofingCost64_valid [OF h] by (simp add: Let_def)
  qed
  have close: "(case calculateRoofingCost64
               \<lparr>roofingType = Commercial, roofSize = 1000, material = ''tpo'', jobType = New,
                complexity = Complex, tearoff = False, permits = True\<rparr> of
          Inr (Some b) \<Rightarrow> \<bar>totalMid b - 8156\<bar> \<le> 1 / 2 ^ 39
        | _ \<Rightarrow> False)"
    by (simp add: scenario64_value)
  have order1: "mul64 (mul64 (mul64 1000 4) (326510972984361 / 281474976710656)) (round64 (11 / 10))
       \<noteq> mul64 (mul64 (mul64 1000 4) (round64 (11 / 10))) (326510972984361 / 281474976710656)"
    unfolding scenario64_steps by simp
  have order2: "mul64 (add64 (mul64 6000 (326510972984361 / 281474976710656)) 500) (round64 (11 / 10))
       \<noteq> add64 (mul64 (mul64 6000 (326510972984361 / 281474976710656)) (round64 (11 / 10))) 500"
    unfolding scenario64_steps by simp
  show ?thesis
    using gen scenario64_steps(1-5) scenario64_value close order1 order2 by blast
qed

theorem C5_multiplier_chain_witness:
  "normalRange 1000
   \<and> materialPricing Commercial ''tpo'' = Some (4, 8)
   \<and> (\<exists>b. calculateRoofingCost64
              \<lparr>roofingType = Commercial, roofSize = 1000, material = ''tpo'', jobType = New,
               complexity = Complex, tearoff = False, permits = True\<rparr> = Inr (Some b)
          \<and> addons b = 500
          \<and> totalMid b =
              add64 (mul64 (mul64 (mul64 1000 (div64 (add64 4 8) 2))
                                  (add64 1 (mul64 (round64 (4 / 10)) (round64 (4 / 10)))))
                           (round64 (11 / 10)))
                    500
          \<and> totalMid b = 4483808418070529 / 549755813888)"
proof -
  let ?fd = "\<lparr>roofingType = Commercial, roofSize = 1000, material = ''tpo'', jobType = New,
               complexity = Complex, tearoff = False, permits = True\<rparr>"
  have h: "normalRange (roofSize ?fd)
             \<and> materialPricing (roofingType ?fd) (material ?fd) = Some (4, 8)"
    by (simp add: materialPricing_def normalRange_def)
  have "\<exists>b. calculateRoofingCost64 ?fd = Inr (Some b)
         \<and> totalMid b =
             add64
               (let base = mul64 (roofSize ?fd) (div64 (add64 4 8) 2);
                    base = mul64 base
                      (add64 1 (mul64 (round64 (complexityMultipliers (complexity ?fd)))
                                      (round64 (4 / 10))));
                    base = (if roofingType ?fd = Commercial
                            then mul64 base (round64 (11 / 10)) else base)
                in if jobType ?fd = Repair then mul64 base (round64 (6 / 10)) else base)
               (addons b)"
    using C5_multiplier_chain [THEN conjunct1, rule_format, OF h] by blast
  then obtain b where b: "calculateRoofingCost64 ?fd = Inr (Some b)"
    "totalMid b =
             add64
               (let base = mul64 (roofSize ?fd) (div64 (add64 4 8) 2);
                    base = mul64 base
                      (add64 1 (mul64 (round64 (complexityMultipliers (complexity ?fd)))
                                      (round64 (4 / 10))));
                    base = (if roofingType ?fd = Commercial
                            then mul64 base (round64 (11 / 10)) else base)
                in if jobType ?fd = Repair then mul64 base (round64 (6 / 10)) else base)
               (addons b)"
    by blast
  have v: "calculateRoofingCost64 ?fd
       = Inr (Some \<lparr>materials = 5380570101684635 / 1099511627776,
                    labor = 7174093468912847 / 2199023255552, addons = 500,
                    totalLow = 3080831581028353 / 549755813888,
                    totalHigh = 2943392627556353 / 274877906944,
                    totalMid = 4483808418070529 / 549755813888\<rparr>)"
    using C5_multiplier_chain by blast
  from b(1) v have "b = \<lparr>materials = 5380570101684635 / 1099511627776,
                    labor = 7174093468912847 / 2199023255552, addons = 500,
                    totalLow = 3080831581028353 / 549755813888,
                    totalHigh = 2943392627556353 / 274877906944,
                    totalMid = 4483808418070529 / 549755813888\<rparr>"
    by (simp only: sum.inject option.inject)
  then have e: "addons b = 500" "totalMid b = 4483808418070529 / 549755813888"
    by simp_all
  have "totalMid b = add64 (mul64 (mul64 (mul64 1000 (div64 (add64 4 8) 2))
                                  (add64 1 (mul64 (round64 (4 / 10)) (round64 (4 / 10)))))
                           (round64 (11 / 10)))
                    500"
    using b(2) unfolding e(1) by (simp add: Let_def)
  with b(1) e h show ?thesis
    by (intro conjI exI [of _ b]) simp_all
qed

text \<open>
  C9 (as stated). Without tear-off and permits, the values for the area k * a are
  claimed to be k times the values for the area a. On the code's doubles, residential
  asphalt on a complex roof gives a mid total of 8700.000000000002 for 1000 square feet
  and of 26100.000000000004 for 3000, which is not three times the former, neither
  exactly nor as a double product; materials and labor differ too.
\<close>

theorem C9_exact_scaling_counterexample:
  "(case calculateRoofingCost64
           \<lparr>roofingType = Residential, roofSize = 1000, material = ''asphalt'',
            jobType = New, complexity = Complex, tearoff = False, permits = False\<rparr> of
      Inr (Some b) \<Rightarrow>
        (case calculateRoofingCost64
                \<lparr>roofingType = Residential, roofSize = 3 * 1000, material = ''asphalt'',
                 jobType = New, complexity = Complex, tearoff = False, permits = False\<rparr> of
           Inr (Some b') \<Rightarrow>
             totalMid b = 4782875580825601 / 549755813888
             \<and> totalMid b' = 7174313371238401 / 274877906944
             \<and> totalMid b' \<noteq> 3 * totalMid b
             \<and> totalMid b' \<noteq> mul64 3 (totalMid b)
             \<and> materials b' \<noteq> 3 * materials b
             \<and> labor b' \<noteq> 3 * labor b
         | _ \<Rightarrow> False)
    | _ \<Rightarrow> False)"
  unfolding calculateRoofingCost64_def
  apply (simp add: materialPricing_def Let_def)
  apply (simp add: eval64 Let_def)
  done

text \<open>
  C9 (amended). Without tear-off and permits the estimator is homogeneous in the area up
  to rounding: for a material of the category's catalog, a factor k > 0 and areas a and
  k * a in the range where nothing overflows or underflows, each of the
  three totals, the materials and the labor for the area k * a differs from k times the
  value for the area a by at most \<open>2 ^ - 49\<close> of it. No upper bound on the area is
  applied: any area up to \<open>2 ^ 1000\<close> qualifies.
\<close>

theorem C9_homogeneous_up_to_rounding:
  assumes "materialPricing (roofingType fd) (material fd) = Some (lo, hi)"
    and "\<not> tearoff fd" and "\<not> permits fd"
    and "normalRange a" and "normalRange (k * a)" and "0 < k"
  shows "\<exists>b b'. calculateRoofingCost64 (fd\<lparr>roofSize := a\<rparr>) = Inr (Some b)
           \<and> calculateRoofingCost64 (fd\<lparr>roofSize := k * a\<rparr>) = Inr (Some b')
           \<and> \<bar>totalLow b' - k * totalLow b\<bar> \<le> k * totalLow b / 2 ^ 49
           \<and> \<bar>totalMid b' - k * totalMid b\<bar> \<le> k * totalMid b / 2 ^ 49
           \<and> \<bar>totalHigh b' - k * totalHigh b\<bar> \<le> k * totalHigh b / 2 ^ 49
           \<and> \<bar>materials b' - k * materials b\<bar> \<le> k * materials b / 2 ^ 49
           \<and> \<bar>labor b' - k * labor b\<bar> \<le> k * labor b / 2 ^ 49"
proof -
  let ?f1 = "fd\<lparr>roofSize := a\<rparr>" and ?f2 = "fd\<lparr>roofSize := k * a\<rparr>"
  define lm where
    "lm = add64 1 (mul64 (round64 (complexityMultipliers (complexity fd))) (round64 (4 / 10)))"
  define C where "C = (if roofingType fd = Commercial then round64 (11 / 10) else 1)"
  define R where "R = (if jobType fd = Repair then round64 (6 / 10) else 1)"
  define mid where "mid = div64 (add64 lo hi) 2"
  have a: "0 < a" using assms(4) by (rule normalRange_pos)
  have k0: "0 \<le> k" using assms(6) by simp
  have lm0: "0 \<le> lm" unfolding lm_def by (rule laborMultiplier64_nonneg)
  have C0: "0 \<le> C" and R0: "0 \<le> R"
    by (simp_all add: C_def R_def round64_nonneg)
  have lo0: "0 \<le> lo" and hi0: "0 \<le> hi"
    using materialPricing_ordered [OF assms(1)] by simp_all
  have mid0: "0 \<le> mid" unfolding mid_def using assms(1) by (rule midCost64_nonneg)
  have c6: "0 \<le> round64 (6 / 10)" and c4: "0 \<le> round64 (4 / 10)"
    by (simp_all add: round64_nonneg)
  have h1: "0 < roofSize ?f1"
      "materialPricing (roofingType ?f1) (material ?f1) = Some (lo, hi)"
      "\<not> tearoff ?f1" "\<not> permits ?f1"
    using assms a by simp_all
  have h2: "0 < roofSize ?f2"
      "materialPricing (roofingType ?f2) (material ?f2) = Some (lo, hi)"
      "\<not> tearoff ?f2" "\<not> permits ?f2"
    using assms a by simp_all
  obtain b where b: "calculateRoofingCost64 ?f1 = Inr (Some b)"
      "closeTo 6 (totalLow b) (a * lo * lm * C * R)"
      "closeTo 6 (totalMid b) (a * mid * lm * C * R)"
      "closeTo 6 (totalHigh b) (a * hi * lm * C * R)"
      "closeTo 6 (materials b) (a * mid * lm * C * R * round64 (6 / 10))"
      "closeTo 6 (labor b) (a * mid * lm * C * R * round64 (4 / 10))"
    using fields64_closeTo [OF h1] unfolding lm_def C_def R_def mid_def by auto
  obtain b' where b': "calculateRoofingCost64 ?f2 = Inr (Some b')"
      "closeTo 6 (totalLow b') (k * a * lo * lm * C * R)"
      "closeTo 6 (totalMid b') (k * a * mid * lm * C * R)"
      "closeTo 6 (totalHigh b') (k * a * hi * lm * C * R)"
      "closeTo 6 (materials b') (k * a * mid * lm * C * R * round64 (6 / 10))"
      "closeTo 6 (labor b') (k * a * mid * lm * C * R * round64 (4 / 10))"
    using fields64_closeTo [OF h2] unfolding lm_def C_def R_def mid_def by auto
  have sc: "\<bar>y' - k * y\<bar> \<le> k * y / 2 ^ 49"
    if "0 \<le> e" and "closeTo 6 y (a * e)" and "closeTo 6 y' (k * a * e)" for y y' e
  proof -
    have "0 \<le> a * e" using a that(1) by simp
    moreover have "closeTo 6 y' (k * (a * e))" using that(3) by (simp add: mult.assoc)
    ultimately show ?thesis using that(2) k0 by (intro closeTo_scale)
  qed
  have e: "0 \<le> p * lm * C * R" if "0 \<le> p" for p
    using that lm0 C0 R0 by simp
  have e6: "0 \<le> mid * lm * C * R * round64 (6 / 10)"
    using e [OF mid0] c6 by (rule mult_nonneg_nonneg)
  have e4: "0 \<le> mid * lm * C * R * round64 (4 / 10)"
    using e [OF mid0] c4 by (rule mult_nonneg_nonneg)
  have "\<bar>totalLow b' - k * totalLow b\<bar> \<le> k * totalLow b / 2 ^ 49"
    using b(2) b'(2) by (intro sc [OF e [OF lo0]]) (simp_all add: mult.assoc)
  moreover have "\<bar>totalMid b' - k * totalMid b\<bar> \<le> k * totalMid b / 2 ^ 49"
    using b(3) b'(3) by (intro sc [OF e [OF mid0]]) (simp_all add: mult.assoc)
  moreover have "\<bar>totalHigh b' - k * totalHigh b\<bar> \<le> k * totalHigh b / 2 ^ 49"
    using b(4) b'(4) by (intro sc [OF e [OF hi0]]) (simp_all add: mult.assoc)
  moreover have "\<bar>materials b' - k * materials b\<bar> \<le> k * materials b / 2 ^ 49"
    using b(5) b'(5) by (intro sc [OF e6]) (simp_all add: mult.assoc)
  moreover have "\<bar>labor b' - k * labor b\<bar> \<le> k * labor b / 2 ^ 49"
    using b(6) b'(6) by (intro sc [OF e4]) (simp_all add: mult.assoc)
  ultimately show ?thesis using b(1) b'(1) by blast
qed

theorem C9_homogeneous_up_to_rounding_witness:
  "materialPricing Commercial ''tpo'' = Some (4, 8)
   \<and> normalRange 50000 \<and> normalRange (3 * 50000) \<and> (0::real) < 3
   \<and> (\<exists>b b'.
        calculateRoofingCost64
          \<lparr>roofingType = Commercial, roofSize = 50000, material = ''tpo'',
           jobType = Repair, complexity = Complex, tearoff = False, permits = False\<rparr>
          = Inr (Some b)
        \<and> calculateRoofingCost64
          \<lparr>roofingType = Commercial, roofSize = 3 * 50000, material = ''tpo'',
           jobType = Repair, complexity = Complex, tearoff = False, permits = False\<rparr>
          = Inr (Some b')
        \<and> \<bar>totalLow b' - 3 * totalLow b\<bar> \<le> 3 * totalLow b / 2 ^ 49
        \<and> \<bar>totalMid b' - 3 * totalMid b\<bar> \<le> 3 * totalMid b / 2 ^ 49
        \<and> \<bar>totalHigh b' - 3 * totalHigh b\<bar> \<le> 3 * totalHigh b / 2 ^ 49
        \<and> \<bar>materials b' - 3 * materials b\<bar> \<le> 3 * materials b / 2 ^ 49
        \<and> \<bar>labor b' - 3 * labor b\<bar> \<le> 3 * labor b / 2 ^ 49)"
proof -
  let ?fd = "\<lparr>roofingType = Commercial, roofSize = 50000, material = ''tpo'',
           jobType = Repair, complexity = Complex, tearoff = False, permits = False\<rparr>"
  have h1: "materialPricing (roofingType ?fd) (material ?fd) = Some (4, 8)"
    by (simp add: materialPricing_def)
  have h2: "\<not> tearoff ?fd" "\<not> permits ?fd" by simp_all
  have h3: "normalRange 50000" "normalRange (3 * 50000)" "(0::real) < 3"
    by (simp_all add: normalRange_def)
  show ?thesis
    using C9_homogeneous_up_to_rounding [OF h1 h2 h3] h1 h3 by simp
qed

end
